theory Spec2Isabelle
  imports Complex_Main
begin

section \<open>Governance engine of the phishing-URL classifier\<close>

text \<open>
  A shallow embedding of \<^verbatim>\<open>src/governance/governance_engine.py\<close>.

  Conventions of the embedding.
  \<^item> Python's unbounded integers are \<open>int\<close>.
  \<^item> A point in time (\<^verbatim>\<open>datetime.now(timezone.utc)\<close>, and the ISO 8601 strings the
    source stores) is an \<open>int\<close>: microseconds since the epoch. A \<^verbatim>\<open>timedelta\<close> is an
    \<open>int\<close> of microseconds. A function that reads the clock takes the reading as its
    first argument \<open>now\<close>. \<^verbatim>\<open>request_override\<close> reads it twice for the override it
    builds and takes both readings: \<open>now\<close>, read inside \<^verbatim>\<open>_calculate_expiration\<close>, and
    \<open>created\<close>, read afterwards for \<^verbatim>\<open>created_at\<close>. The readings that
    \<^verbatim>\<open>get_active_overrides\<close> takes, one for each override, are one value.
  \<^item> The engine object is the record \<open>engine\<close> of its three attributes; a method takes the
    engine last and returns it updated, paired with the method's result where it has one.
  \<^item> Every \<^verbatim>\<open>raise ValueError(...)\<close> of the source is a constructor of the datatype
    \<open>ValueError\<close>, whose arguments are the values the message interpolates. A method
    that may raise returns \<open>ValueError + 'a\<close> together with the engine it leaves behind
    (an exception does not undo the assignments made before it).
  \<^item> Writing the state file, logging and printing to stderr do not feed back into the
    attributes of the engine and are left out.
  \<^item> A name of the source that starts with an underscore loses it.
\<close>

subsection \<open>Configuration constants\<close>

datatype OverrideAuthority = SECURITY_TEAM | ON_CALL | CI_SYSTEM

text \<open>The \<^verbatim>\<open>.value\<close> of a member of the enumeration.\<close>

fun authority_value :: "OverrideAuthority \<Rightarrow> string" where
  "authority_value SECURITY_TEAM = ''security-team''"
| "authority_value ON_CALL = ''on-call''"
| "authority_value CI_SYSTEM = ''ci-system''"

datatype OverrideType = PERMANENT | EMERGENCY | TESTING

fun type_value :: "OverrideType \<Rightarrow> string" where
  "type_value PERMANENT = ''permanent''"
| "type_value EMERGENCY = ''emergency''"
| "type_value TESTING = ''testing''"

type_synonym timestamp = int
type_synonym timedelta = int

text \<open>\<^verbatim>\<open>timedelta(hours=h)\<close>, in microseconds.\<close>

definition hours :: "int \<Rightarrow> timedelta" where
  "hours h = h * 3600000000"

fun OVERRIDE_MAX_DURATION :: "OverrideType \<Rightarrow> timedelta option" where
  "OVERRIDE_MAX_DURATION PERMANENT = None"
| "OVERRIDE_MAX_DURATION EMERGENCY = Some (hours 24)"
| "OVERRIDE_MAX_DURATION TESTING = Some (hours 1)"

text \<open>
  The dictionary \<^verbatim>\<open>SAFETY_BUDGET_LIMITS\<close>, in the order of its keys. The source only
  subscripts it with the three literal keys; \<open>limit_of\<close> is that subscript.
\<close>

definition SAFETY_BUDGET_LIMITS :: "(string \<times> int) list" where
  "SAFETY_BUDGET_LIMITS =
     [(''suspicious_on_trusted'', 0), (''overrides_per_window'', 3), (''canary_failures'', 5)]"

definition limit_of :: "string \<Rightarrow> int" where
  "limit_of k = (case map_of SAFETY_BUDGET_LIMITS k of Some n \<Rightarrow> n | None \<Rightarrow> 0)"

definition CANARY_MIN_PASSES :: int where
  "CANARY_MIN_PASSES = 5"

definition CANARY_MIN_SAMPLE_SIZE :: int where
  "CANARY_MIN_SAMPLE_SIZE = 100"

subsection \<open>Data classes\<close>

record Override =
  override_id :: string
  override_type :: string
  authority :: string
  created_at :: timestamp
  expires_at :: "timestamp option"
  affected_domains :: "string list"
  reason :: string
  approved_by :: string
  review_ticket :: "string option"
  is_active :: bool

definition is_expired :: "timestamp \<Rightarrow> Override \<Rightarrow> bool" where
  "is_expired now ov = (case expires_at ov of None \<Rightarrow> False | Some expiry \<Rightarrow> now > expiry)"

record CanarySignal =
  domain :: string
  test_runs :: int
  passes :: int
  failures :: int
  sample_size :: int
  last_run :: "timestamp option"
  last_verdict :: "string option"
  consecutive_passes :: int

text \<open>\<^verbatim>\<open>CanarySignal(domain=d)\<close>: every other field at its default.\<close>

definition new_signal :: "string \<Rightarrow> CanarySignal" where
  "new_signal d =
     \<lparr>domain = d, test_runs = 0, passes = 0, failures = 0, sample_size = 0,
      last_run = None, last_verdict = None, consecutive_passes = 0\<rparr>"

text \<open>
  The quotient \<^verbatim>\<open>self.passes / self.test_runs\<close> is Python's true division of two
  integers. It is modelled by the exact rational quotient: the source only compares it with
  \<open>1.0\<close>, and for counts below \<open>2^53\<close> the correctly rounded quotient of two integers
  lies on the same side of \<open>1.0\<close> as the exact one.
\<close>

definition pass_rate :: "CanarySignal \<Rightarrow> rat" where
  "pass_rate sg = (if test_runs sg = 0 then 0 else of_int (passes sg) / of_int (test_runs sg))"

definition has_sufficient_signal :: "CanarySignal \<Rightarrow> bool" where
  "has_sufficient_signal sg =
     (test_runs sg \<ge> CANARY_MIN_PASSES \<and> sample_size sg \<ge> CANARY_MIN_SAMPLE_SIZE)"


record SafetyBudgetStatus =
  window_start :: timestamp
  suspicious_on_trusted :: int
  overrides_used :: int
  canary_failures :: int
  is_frozen :: bool
  freeze_reason :: "string option"

text \<open>The dictionary \<^verbatim>\<open>is_budget_exceeded\<close> returns, in the order of its keys.\<close>

definition is_budget_exceeded :: "SafetyBudgetStatus \<Rightarrow> (string \<times> bool) list" where
  "is_budget_exceeded b =
     [(''suspicious_on_trusted'', suspicious_on_trusted b > limit_of ''suspicious_on_trusted''),
      (''overrides_per_window'', overrides_used b > limit_of ''overrides_per_window''),
      (''canary_failures'', canary_failures b > limit_of ''canary_failures'')]"

text \<open>
  \<^verbatim>\<open>exceeded.get(k)\<close> used as a condition: a missing key gives \<^verbatim>\<open>None\<close>, which is
  false.
\<close>

definition exceeded_get :: "(string \<times> bool) list \<Rightarrow> string \<Rightarrow> bool" where
  "exceeded_get d k = (case map_of d k of Some b \<Rightarrow> b | None \<Rightarrow> False)"

subsection \<open>The engine and its state\<close>

record engine =
  overrides :: "Override list"
  canary_signals :: "string \<rightharpoonup> CanarySignal"
  safety_budget :: SafetyBudgetStatus

text \<open>\<^verbatim>\<open>SafetyBudgetStatus(window_start=now)\<close>: every other field at its default.\<close>

definition new_budget :: "timestamp \<Rightarrow> SafetyBudgetStatus" where
  "new_budget now =
     \<lparr>window_start = now, suspicious_on_trusted = 0, overrides_used = 0, canary_failures = 0,
      is_frozen = False, freeze_reason = None\<rparr>"

definition reset_safety_budget :: "timestamp \<Rightarrow> engine \<Rightarrow> engine" where
  "reset_safety_budget now s = s\<lparr>safety_budget := new_budget now\<rparr>"

text \<open>
  The state file as \<^verbatim>\<open>json.load\<close> returns it: each of the three keys may be missing.
  \<open>load_state now None\<close> is the engine started without a state file.
\<close>

record state_file =
  file_overrides :: "Override list option"
  file_canary_signals :: "(string \<rightharpoonup> CanarySignal) option"
  file_safety_budget :: "SafetyBudgetStatus option"

definition load_state :: "timestamp \<Rightarrow> state_file option \<Rightarrow> engine" where
  "load_state now file =
     (case file of
        Some data \<Rightarrow>
          \<lparr>overrides = (case file_overrides data of Some os \<Rightarrow> os | None \<Rightarrow> []),
           canary_signals = (case file_canary_signals data of Some cs \<Rightarrow> cs | None \<Rightarrow> Map.empty),
           safety_budget =
             (case file_safety_budget data of Some b \<Rightarrow> b | None \<Rightarrow> new_budget now)\<rparr>
      | None \<Rightarrow>
          \<lparr>overrides = [], canary_signals = Map.empty, safety_budget = new_budget now\<rparr>)"

subsection \<open>Override authority boundaries\<close>

text \<open>
  The messages of the \<^verbatim>\<open>ValueError\<close>s the engine raises, one constructor for each
  \<^verbatim>\<open>raise\<close> of the source, in the order of the source:
  \<^item> \<open>SystemFrozen r\<close>: "System is frozen: r, no overrides allowed until freeze is lifted";
  \<^item> \<open>PermanentNeedsSecurityTeam a\<close>: "PERMANENT overrides require SECURITY_TEAM
    authority, got a";
  \<^item> \<open>PermanentNeedsTicket\<close>: "PERMANENT overrides require a review_ticket reference";
  \<^item> \<open>EmergencyNeedsAuthority a\<close>: "EMERGENCY overrides require SECURITY_TEAM or ON_CALL,
    got a";
  \<^item> \<open>TestingNeedsCI a\<close>: "TESTING overrides are for CI_SYSTEM only, got a";
  \<^item> \<open>OverrideBudgetExceeded\<close>: "Override budget exceeded. System frozen.";
  \<^item> \<open>OverrideNotFound i\<close>: "Override not found: i";
  \<^item> \<open>CannotPromote r\<close>: "Cannot promote: r", with \<open>r\<close> the reason of the eligibility
    report.
\<close>

datatype ineligibility =
    NoSignalData
  | InsufficientSignal int int
  | InsufficientConsecutivePasses int
  | PassRateBelowRequired rat
  | AllCriteriaMet

datatype ValueError =
    SystemFrozen "string option"
  | PermanentNeedsSecurityTeam string
  | PermanentNeedsTicket
  | EmergencyNeedsAuthority string
  | TestingNeedsCI string
  | OverrideBudgetExceeded
  | OverrideNotFound string
  | CannotPromote ineligibility

text \<open>\<^verbatim>\<open>not review_ticket\<close>: \<^verbatim>\<open>None\<close> and the empty string are false.\<close>

definition no_ticket :: "string option \<Rightarrow> bool" where
  "no_ticket ticket = (case ticket of None \<Rightarrow> True | Some t \<Rightarrow> t = [])"

definition validate_authority ::
  "OverrideType \<Rightarrow> OverrideAuthority \<Rightarrow> string option \<Rightarrow> ValueError + unit" where
  "validate_authority ty auth ticket =
     (case ty of
        PERMANENT \<Rightarrow>
          if auth \<noteq> SECURITY_TEAM then Inl (PermanentNeedsSecurityTeam (authority_value auth))
          else if no_ticket ticket then Inl PermanentNeedsTicket
          else Inr ()
      | EMERGENCY \<Rightarrow>
          if \<not> List.member [SECURITY_TEAM, ON_CALL] auth
          then Inl (EmergencyNeedsAuthority (authority_value auth))
          else Inr ()
      | TESTING \<Rightarrow>
          if auth \<noteq> CI_SYSTEM then Inl (TestingNeedsCI (authority_value auth))
          else Inr ())"

definition calculate_expiration ::
  "timestamp \<Rightarrow> OverrideType \<Rightarrow> timedelta option \<Rightarrow> timestamp option" where
  "calculate_expiration now ty duration =
     (case OVERRIDE_MAX_DURATION ty of
        None \<Rightarrow> None
      | Some max_duration \<Rightarrow>
          Some (now +
            (case duration of
               None \<Rightarrow> max_duration
             | Some d \<Rightarrow> if d > max_duration then max_duration else d)))"

definition trigger_freeze :: "string \<Rightarrow> engine \<Rightarrow> engine" where
  "trigger_freeze why s =
     s\<lparr>safety_budget := (safety_budget s)\<lparr>is_frozen := True, freeze_reason := Some why\<rparr>\<rparr>"

text \<open>
  \<open>request_override now created new_id ty auth doms why approver ticket duration s\<close>:
  \<open>now\<close> is the clock as \<^verbatim>\<open>_calculate_expiration\<close> reads it, \<open>created\<close> the clock as it is
  read again for \<^verbatim>\<open>created_at\<close>, once the budget check has passed and the identifier is
  generated. \<open>new_id\<close> is the identifier \<^verbatim>\<open>_generate_override_id\<close> returns, which the
  source builds from the clock and \<^verbatim>\<open>os.urandom\<close>.
\<close>

definition request_override ::
  "timestamp \<Rightarrow> timestamp \<Rightarrow> string \<Rightarrow> OverrideType \<Rightarrow> OverrideAuthority \<Rightarrow> string list \<Rightarrow>
   string \<Rightarrow> string \<Rightarrow> string option \<Rightarrow> timedelta option \<Rightarrow> engine \<Rightarrow>
   (ValueError + Override) \<times> engine" where
  "request_override now created new_id ty auth doms why approver ticket duration s =
     (if is_frozen (safety_budget s)
      then (Inl (SystemFrozen (freeze_reason (safety_budget s))), s)
      else
        (case validate_authority ty auth ticket of
           Inl e \<Rightarrow> (Inl e, s)
         | Inr _ \<Rightarrow>
             (let expires = calculate_expiration now ty duration;
                  exceeded = is_budget_exceeded (safety_budget s)
              in if exceeded_get exceeded ''overrides_per_window''
                 then (Inl OverrideBudgetExceeded, trigger_freeze ''Override budget exceeded'' s)
                 else
                   (let ov = \<lparr>override_id = new_id, override_type = type_value ty,
                              authority = authority_value auth, created_at = created,
                              expires_at = expires, affected_domains = doms, reason = why,
                              approved_by = approver, review_ticket = ticket,
                              is_active = True\<rparr>
                    in (Inr ov,
                        s\<lparr>overrides := overrides s @ [ov],
                          safety_budget := (safety_budget s)
                            \<lparr>overrides_used := overrides_used (safety_budget s) + 1\<rparr>\<rparr>)))))"

text \<open>
  \<^verbatim>\<open>get_active_overrides\<close> collects the overrides that are active and not expired, and
  sets the active flag of an expired one to false.
\<close>

definition expire :: "timestamp \<Rightarrow> Override \<Rightarrow> Override" where
  "expire now ov = (if is_active ov \<and> is_expired now ov then ov\<lparr>is_active := False\<rparr> else ov)"

definition get_active_overrides :: "timestamp \<Rightarrow> engine \<Rightarrow> Override list \<times> engine" where
  "get_active_overrides now s =
     (filter (\<lambda>ov. is_active ov \<and> \<not> is_expired now ov) (overrides s),
      s\<lparr>overrides := map (expire now) (overrides s)\<rparr>)"

text \<open>The loop of \<^verbatim>\<open>revoke_override\<close>: the first override with the identifier, if any.\<close>

fun revoke_first :: "string \<Rightarrow> Override list \<Rightarrow> Override list option" where
  "revoke_first oid [] = None"
| "revoke_first oid (ov # ovs) =
     (if override_id ov = oid then Some (ov\<lparr>is_active := False\<rparr> # ovs)
      else map_option (\<lambda>r. ov # r) (revoke_first oid ovs))"

definition revoke_override ::
  "string \<Rightarrow> string \<Rightarrow> string \<Rightarrow> engine \<Rightarrow> (ValueError + unit) \<times> engine" where
  "revoke_override oid revoked_by why s =
     (case revoke_first oid (overrides s) of
        Some ovs \<Rightarrow> (Inr (), s\<lparr>overrides := ovs\<rparr>)
      | None \<Rightarrow> (Inl (OverrideNotFound oid), s))"

subsection \<open>Canary promotion enforcement\<close>

definition record_canary_result ::
  "timestamp \<Rightarrow> string \<Rightarrow> string \<Rightarrow> int \<Rightarrow> engine \<Rightarrow> CanarySignal \<times> engine" where
  "record_canary_result now d verdict n s =
     (let sg0 = (case canary_signals s d of None \<Rightarrow> new_signal d | Some sg \<Rightarrow> sg);
          sg1 = sg0\<lparr>test_runs := test_runs sg0 + 1, sample_size := sample_size sg0 + n,
                   last_run := Some now, last_verdict := Some verdict\<rparr>
      in if verdict = ''PHISHING''
         then
           (let sg2 = sg1\<lparr>failures := failures sg1 + 1, consecutive_passes := 0\<rparr>;
                s1 = s\<lparr>canary_signals := (canary_signals s)(d \<mapsto> sg2),
                       safety_budget := (safety_budget s)
                         \<lparr>canary_failures := canary_failures (safety_budget s) + 1\<rparr>\<rparr>
            in (sg2,
                if exceeded_get (is_budget_exceeded (safety_budget s1)) ''canary_failures''
                then trigger_freeze ''Canary failure budget exceeded'' s1
                else s1))
         else
           (let sg2 = sg1\<lparr>passes := passes sg1 + 1,
                           consecutive_passes := consecutive_passes sg1 + 1\<rparr>
            in (sg2, s\<lparr>canary_signals := (canary_signals s)(d \<mapsto> sg2)\<rparr>)))"

text \<open>
  The report of \<^verbatim>\<open>check_promotion_eligibility\<close>. Its key \<^verbatim>\<open>reason\<close> is the field
  \<open>why_not\<close> (a value of \<open>ineligibility\<close>, which holds the numbers the message shows); the
  keys \<^verbatim>\<open>requires_approval\<close> and \<^verbatim>\<open>approval_metadata_required\<close> exist in the eligible
  report only.
\<close>

record eligibility =
  eligible :: bool
  why_not :: ineligibility
  signal :: "CanarySignal option"
  requires_approval :: "bool option"
  approval_metadata_required :: "string list option"

definition check_promotion_eligibility :: "string \<Rightarrow> engine \<Rightarrow> eligibility" where
  "check_promotion_eligibility d s =
     (case canary_signals s d of
        None \<Rightarrow>
          \<lparr>eligible = False, why_not = NoSignalData, signal = None,
           requires_approval = None, approval_metadata_required = None\<rparr>
      | Some sg \<Rightarrow>
          if \<not> has_sufficient_signal sg
          then \<lparr>eligible = False, why_not = InsufficientSignal (test_runs sg) (sample_size sg),
                signal = Some sg, requires_approval = None, approval_metadata_required = None\<rparr>
          else if consecutive_passes sg < CANARY_MIN_PASSES
          then \<lparr>eligible = False, why_not = InsufficientConsecutivePasses (consecutive_passes sg),
                signal = Some sg, requires_approval = None, approval_metadata_required = None\<rparr>
          else if pass_rate sg < 1
          then \<lparr>eligible = False, why_not = PassRateBelowRequired (pass_rate sg),
                signal = Some sg, requires_approval = None, approval_metadata_required = None\<rparr>
          else \<lparr>eligible = True, why_not = AllCriteriaMet, signal = Some sg,
                requires_approval = Some True,
                approval_metadata_required =
                  Some [''approved_by'', ''approval_date'', ''review_ticket'']\<rparr>)"

record promotion_record =
  promoted_domain :: string
  promoted_at :: timestamp
  promotion_approved_by :: string
  promotion_review_ticket :: string
  promotion_signal :: "CanarySignal option"

definition promote_canary ::
  "timestamp \<Rightarrow> string \<Rightarrow> string \<Rightarrow> string \<Rightarrow> engine \<Rightarrow> ValueError + promotion_record" where
  "promote_canary now d approver ticket s =
     (let e = check_promotion_eligibility d s
      in if \<not> eligible e then Inl (CannotPromote (why_not e))
         else Inr \<lparr>promoted_domain = d, promoted_at = now, promotion_approved_by = approver,
                   promotion_review_ticket = ticket, promotion_signal = signal e\<rparr>)"

subsection \<open>Calibration as policy input\<close>

text \<open>
  The dictionary \<^verbatim>\<open>get_calibration_policy_adjustment\<close> returns. The penalty is the
  decimal literal of the source, which the source never computes with; the key
  \<^verbatim>\<open>warning_message\<close> is missing from the healthy adjustment.
\<close>

record policy_adjustment =
  confidence_penalty :: rat
  restrict_phishing :: bool
  require_warning :: bool
  ci_should_warn :: bool
  warning_message :: "string option"

definition get_calibration_policy_adjustment :: "string \<Rightarrow> policy_adjustment" where
  "get_calibration_policy_adjustment calibration_status =
     (if calibration_status = ''healthy''
      then \<lparr>confidence_penalty = 0.0, restrict_phishing = False, require_warning = False,
            ci_should_warn = False, warning_message = None\<rparr>
      else if calibration_status = ''degraded''
      then \<lparr>confidence_penalty = 0.20, restrict_phishing = True, require_warning = True,
            ci_should_warn = True,
            warning_message = Some ''Model calibration is degraded. Confidence reduced.''\<rparr>
      else \<lparr>confidence_penalty = 0.10, restrict_phishing = True, require_warning = True,
            ci_should_warn = True,
            warning_message =
              Some ''Calibration status unknown. Results may be unreliable.''\<rparr>)"

definition apply_calibration_restriction :: "string \<Rightarrow> string \<Rightarrow> string" where
  "apply_calibration_restriction original_verdict calibration_status =
     (let adjustment = get_calibration_policy_adjustment calibration_status
      in if restrict_phishing adjustment \<and> original_verdict = ''PHISHING''
         then ''SUSPICIOUS''
         else original_verdict)"

subsection \<open>Safety budgets and escalation\<close>

text \<open>
  One round of the loop that ends \<^verbatim>\<open>record_safety_event\<close>: the dictionary of exceeded
  budgets was computed before the loop, the frozen flag is read in every round.
\<close>

definition check_budget :: "string \<times> bool \<Rightarrow> engine \<Rightarrow> engine" where
  "check_budget item s =
     (case item of
        (budget_type, exceeded) \<Rightarrow>
          if exceeded \<and> \<not> is_frozen (safety_budget s)
          then trigger_freeze (''Safety budget exceeded: '' @ budget_type) s
          else s)"

definition record_safety_event :: "string \<Rightarrow> engine \<Rightarrow> engine" where
  "record_safety_event event_type s =
     (let s1 =
            (if event_type = ''suspicious_on_trusted''
             then trigger_freeze ''CRITICAL: SUSPICIOUS verdict on trusted domain''
                    (s\<lparr>safety_budget := (safety_budget s)
                         \<lparr>suspicious_on_trusted := suspicious_on_trusted (safety_budget s) + 1\<rparr>\<rparr>)
             else if event_type = ''override''
             then s\<lparr>safety_budget := (safety_budget s)
                      \<lparr>overrides_used := overrides_used (safety_budget s) + 1\<rparr>\<rparr>
             else if event_type = ''canary_failure''
             then s\<lparr>safety_budget := (safety_budget s)
                      \<lparr>canary_failures := canary_failures (safety_budget s) + 1\<rparr>\<rparr>
             else s)
      in fold check_budget (is_budget_exceeded (safety_budget s1)) s1)"

definition lift_freeze :: "timestamp \<Rightarrow> string \<Rightarrow> string \<Rightarrow> string \<Rightarrow> engine \<Rightarrow> engine" where
  "lift_freeze now lifted_by resolution ticket s =
     (if \<not> is_frozen (safety_budget s) then s
      else reset_safety_budget now
             (s\<lparr>safety_budget := (safety_budget s)\<lparr>is_frozen := False, freeze_reason := None\<rparr>\<rparr>))"

text \<open>
  The summary of \<^verbatim>\<open>get_safety_status\<close>. An entry of \<^verbatim>\<open>budget_usage\<close> is the pair of
  the count and the limit that the source prints as "count/limit". The summary counts the
  active overrides with \<^verbatim>\<open>get_active_overrides\<close>, which updates the engine.
\<close>

record safety_status =
  status_is_frozen :: bool
  status_freeze_reason :: "string option"
  budget_usage :: "(string \<times> int \<times> int) list"
  budget_exceeded :: "(string \<times> bool) list"
  active_overrides :: int
  status_window_start :: timestamp

definition get_safety_status :: "timestamp \<Rightarrow> engine \<Rightarrow> safety_status \<times> engine" where
  "get_safety_status now s =
     (let b = safety_budget s;
          r = get_active_overrides now s
      in (\<lparr>status_is_frozen = is_frozen b,
           status_freeze_reason = freeze_reason b,
           budget_usage =
             [(''suspicious_on_trusted'', suspicious_on_trusted b, limit_of ''suspicious_on_trusted''),
              (''overrides'', overrides_used b, limit_of ''overrides_per_window''),
              (''canary_failures'', canary_failures b, limit_of ''canary_failures'')],
           budget_exceeded = is_budget_exceeded b,
           active_overrides = int (length (fst r)),
           status_window_start = window_start b\<rparr>,
          snd r))"

subsection \<open>Policy-as-code verification\<close>

text \<open>
  The three artifacts \<^verbatim>\<open>verify_policy_consistency\<close> reads from the state directory. A
  file that does not exist is \<open>None\<close>; a file that exists is the JSON object
  \<^verbatim>\<open>json.load\<close> returns, a map from keys to values. The values the verifier reads are JSON
  scalars: \<^verbatim>\<open>d.get(k)\<close> is \<open>None\<close> for a missing key and for \<^verbatim>\<open>null\<close>, and a boolean,
  an integer or a string otherwise.
\<close>

datatype json = JBool bool | JInt int | JStr string

text \<open>Python's truth value of \<^verbatim>\<open>d.get(k)\<close>.\<close>

fun truthy :: "json option \<Rightarrow> bool" where
  "truthy None = False"
| "truthy (Some (JBool b)) = b"
| "truthy (Some (JInt i)) = (i \<noteq> 0)"
| "truthy (Some (JStr x)) = (x \<noteq> [])"

text \<open>Python's \<^verbatim>\<open>==\<close> on such values: a boolean equals the integer 0 or 1 it stands for.\<close>

fun py_eq :: "json option \<Rightarrow> json option \<Rightarrow> bool" where
  "py_eq None None = True"
| "py_eq (Some (JBool a)) (Some (JBool b)) = (a = b)"
| "py_eq (Some (JBool a)) (Some (JInt j)) = ((if a then 1 else 0) = j)"
| "py_eq (Some (JInt i)) (Some (JBool b)) = (i = (if b then 1 else 0))"
| "py_eq (Some (JInt i)) (Some (JInt j)) = (i = j)"
| "py_eq (Some (JStr x)) (Some (JStr y)) = (x = y)"
| "py_eq _ _ = False"

record artifacts =
  manifest_file :: "(string \<rightharpoonup> json) option"
  snapshot_file :: "(string \<rightharpoonup> json) option"
  calibration_file :: "(string \<rightharpoonup> json) option"

text \<open>
  The entries of the lists \<^verbatim>\<open>errors\<close> and \<^verbatim>\<open>warnings\<close>, one constructor for each
  message of the source:
  \<^item> \<open>ManifestFileMissing\<close>: "Manifest file missing: trusted_domains_manifest.json";
  \<^item> \<open>ManifestMissingVersion\<close>: "Manifest missing 'version' field";
  \<^item> \<open>ManifestMissingChangeReason\<close>: "Manifest missing 'change_reason' field";
  \<^item> \<open>SnapshotFileMissing\<close>: "Snapshot file missing";
  \<^item> \<open>VersionMismatch m v\<close>: "Version mismatch: manifest=m, snapshot=v";
  \<^item> \<open>CalibrationFileMissing\<close>: "Calibration metrics file missing";
  \<^item> \<open>CalibrationNotHealthy c\<close>: "Calibration status is 'c', not 'healthy'".
\<close>

datatype finding =
    ManifestFileMissing
  | ManifestMissingVersion
  | ManifestMissingChangeReason
  | SnapshotFileMissing
  | VersionMismatch "json option" "json option"
  | CalibrationFileMissing
  | CalibrationNotHealthy "json option"

record consistency_report =
  consistent :: bool
  errors :: "finding list"
  warnings :: "finding list"
  should_fail_ci :: bool

definition check_manifest :: "artifacts \<Rightarrow> finding list" where
  "check_manifest fs =
     (case manifest_file fs of
        None \<Rightarrow> [ManifestFileMissing]
      | Some manifest \<Rightarrow>
          (if \<not> truthy (manifest ''version'') then [ManifestMissingVersion] else []) @
          (if \<not> truthy (manifest ''change_reason'') then [ManifestMissingChangeReason] else []))"

definition check_snapshot :: "artifacts \<Rightarrow> finding list" where
  "check_snapshot fs =
     (case snapshot_file fs of
        None \<Rightarrow> [SnapshotFileMissing]
      | Some snapshot \<Rightarrow>
          (case manifest_file fs of
             None \<Rightarrow> []
           | Some manifest \<Rightarrow>
               if \<not> py_eq (snapshot ''_manifest_version'') (manifest ''version'')
               then [VersionMismatch (manifest ''version'') (snapshot ''_manifest_version'')]
               else []))"

definition check_calibration :: "artifacts \<Rightarrow> finding list" where
  "check_calibration fs =
     (case calibration_file fs of
        None \<Rightarrow> [CalibrationFileMissing]
      | Some calibration \<Rightarrow>
          (let status = calibration ''calibration_status''
           in if \<not> py_eq status (Some (JStr ''healthy''))
              then [CalibrationNotHealthy status]
              else []))"

definition verify_policy_consistency :: "artifacts \<Rightarrow> consistency_report" where
  "verify_policy_consistency fs =
     (let errs = check_manifest fs @ check_snapshot fs;
          warns = check_calibration fs
      in \<lparr>consistent = (length errs = 0), errors = errs, warnings = warns,
          should_fail_ci = (length errs > 0)\<rparr>)"

subsection \<open>Sequences of calls\<close>

text \<open>
  A call of a public method of the engine, with its arguments (and the clock readings and
  the generated identifier where the method uses them); \<open>step\<close> is the engine the call leaves
  behind, whether it returns or raises, and \<open>run\<close> makes the calls of a list in order.
\<close>

datatype call =
    RequestOverride timestamp timestamp string OverrideType OverrideAuthority "string list" string
      string "string option" "timedelta option"
  | GetActiveOverrides timestamp
  | RevokeOverride string string string
  | RecordCanaryResult timestamp string string int
  | CheckPromotionEligibility string
  | PromoteCanary timestamp string string string
  | RecordSafetyEvent string
  | LiftFreeze timestamp string string string
  | GetSafetyStatus timestamp

fun step :: "call \<Rightarrow> engine \<Rightarrow> engine" where
  "step (RequestOverride now created new_id ty auth doms why approver ticket duration) s =
     snd (request_override now created new_id ty auth doms why approver ticket duration s)"
| "step (GetActiveOverrides now) s = snd (get_active_overrides now s)"
| "step (RevokeOverride oid revoked_by why) s = snd (revoke_override oid revoked_by why s)"
| "step (RecordCanaryResult now d verdict n) s = snd (record_canary_result now d verdict n s)"
| "step (CheckPromotionEligibility d) s = s"
| "step (PromoteCanary now d approver ticket) s = s"
| "step (RecordSafetyEvent event_type) s = record_safety_event event_type s"
| "step (LiftFreeze now lifted_by resolution ticket) s = lift_freeze now lifted_by resolution ticket s"
| "step (GetSafetyStatus now) s = snd (get_safety_status now s)"

fun run :: "call list \<Rightarrow> engine \<Rightarrow> engine" where
  "run [] s = s"
| "run (c # cs) s = run cs (step c s)"

fun is_lift :: "call \<Rightarrow> bool" where
  "is_lift (LiftFreeze now lifted_by resolution ticket) = True"
| "is_lift _ = False"

subsection \<open>The authority matrix\<close>

text \<open>
  The matrix of the specification, in its words: a permanent override requires the
  security team, an emergency override the security team or the engineer on call, a testing
  override the CI system. It is compared with \<open>validate_authority\<close> below.
\<close>

definition authority_matrix :: "OverrideType \<Rightarrow> OverrideAuthority \<Rightarrow> bool" where
  "authority_matrix ty auth =
     (case ty of
        PERMANENT \<Rightarrow> auth = SECURITY_TEAM
      | EMERGENCY \<Rightarrow> auth = SECURITY_TEAM \<or> auth = ON_CALL
      | TESTING \<Rightarrow> auth = CI_SYSTEM)"

text \<open>Three emergency requests of the engineer on call, made on a new engine.\<close>

definition three_overrides :: "call list" where
  "three_overrides =
     [RequestOverride 1 1 ''OVERRIDE-1'' EMERGENCY ON_CALL [''a.example''] ''incident'' ''alice''
        None None,
      RequestOverride 2 2 ''OVERRIDE-2'' EMERGENCY ON_CALL [''b.example''] ''incident'' ''alice''
        None None,
      RequestOverride 3 3 ''OVERRIDE-3'' EMERGENCY ON_CALL [''c.example''] ''incident'' ''alice''
        None None]"

section \<open>Properties\<close>

subsection \<open>Freezing\<close>

lemma check_budget_frozen:
  "is_frozen (safety_budget s) \<Longrightarrow> check_budget item s = s"
  by (cases item) (simp add: check_budget_def)

lemma fold_check_budget_frozen:
  "is_frozen (safety_budget s) \<Longrightarrow> fold check_budget items s = s"
  by (induction items) (simp_all add: check_budget_frozen)

text \<open>
  Claim C1. For every engine, \<open>record_safety_event\<close> with the event
  \<open>suspicious_on_trusted\<close> leaves the engine frozen with a freeze reason that is not empty,
  whatever the counter was and whether or not the engine was frozen before.
\<close>

theorem suspicious_on_trusted_freezes:
  "is_frozen (safety_budget (record_safety_event ''suspicious_on_trusted'' s)) \<and>
   freeze_reason (safety_budget (record_safety_event ''suspicious_on_trusted'' s))
     = Some ''CRITICAL: SUSPICIOUS verdict on trusted domain'' \<and>
   (\<exists>r. freeze_reason (safety_budget (record_safety_event ''suspicious_on_trusted'' s)) = Some r
        \<and> r \<noteq> [])"
  by (simp add: record_safety_event_def fold_check_budget_frozen trigger_freeze_def)

subsection \<open>A frozen engine rejects every override\<close>

lemma request_override_frozen:
  "is_frozen (safety_budget s) \<Longrightarrow>
   request_override now created new_id ty auth doms why approver ticket duration s
     = (Inl (SystemFrozen (freeze_reason (safety_budget s))), s)"
  by (simp add: request_override_def)

lemma record_canary_result_frozen:
  "is_frozen (safety_budget s) \<Longrightarrow>
   is_frozen (safety_budget (snd (record_canary_result now d verdict n s)))"
  by (simp add: record_canary_result_def Let_def trigger_freeze_def)

lemma record_safety_event_frozen:
  "is_frozen (safety_budget s) \<Longrightarrow> is_frozen (safety_budget (record_safety_event ev s))"
  by (simp add: record_safety_event_def Let_def fold_check_budget_frozen trigger_freeze_def)

lemma revoke_override_budget:
  "safety_budget (snd (revoke_override oid revoked_by why s)) = safety_budget s"
  by (simp add: revoke_override_def split: option.splits)

lemma get_active_overrides_budget:
  "safety_budget (snd (get_active_overrides now s)) = safety_budget s"
  by (simp add: get_active_overrides_def)

lemma get_safety_status_budget:
  "safety_budget (snd (get_safety_status now s)) = safety_budget s"
  by (simp add: get_safety_status_def Let_def get_active_overrides_def)

text \<open>No call but \<open>lift_freeze\<close> unfreezes the engine.\<close>

lemma step_frozen:
  "is_frozen (safety_budget s) \<Longrightarrow> \<not> is_lift c \<Longrightarrow> is_frozen (safety_budget (step c s))"
  by (cases c)
     (simp_all add: request_override_frozen record_canary_result_frozen
        record_safety_event_frozen revoke_override_budget get_active_overrides_budget
        get_safety_status_budget)

lemma run_frozen:
  "is_frozen (safety_budget s) \<Longrightarrow> \<not> list_ex is_lift cs \<Longrightarrow>
   is_frozen (safety_budget (run cs s))"
  by (induction cs arbitrary: s) (simp_all add: step_frozen)

text \<open>
  Claim C2. From a frozen engine, after any calls none of which is \<open>lift_freeze\<close>, a call of
  \<open>request_override\<close> raises the frozen-state error whatever its arguments are, before any
  other validation, and leaves the engine as it was: no override is appended and the
  counter of overrides does not change.
\<close>

theorem frozen_rejects_every_override_until_lift:
  assumes "is_frozen (safety_budget s)" and "\<not> list_ex is_lift cs"
  shows "request_override now created new_id ty auth doms why approver ticket duration (run cs s)
           = (Inl (SystemFrozen (freeze_reason (safety_budget (run cs s)))), run cs s)"
  using run_frozen [OF assms] by (rule request_override_frozen)

theorem frozen_rejects_every_override_until_lift_witness:
  "is_frozen (safety_budget (record_safety_event ''suspicious_on_trusted'' (load_state 0 None))) \<and>
   \<not> list_ex is_lift
       [RecordCanaryResult 1 ''a.example'' ''PHISHING'' 1,
        RevokeOverride ''OVERRIDE-0'' ''bob'' ''done''] \<and>
   fst (request_override 2 2 ''OVERRIDE-2'' EMERGENCY ON_CALL [''a.example''] ''incident'' ''alice''
          None None
          (run [RecordCanaryResult 1 ''a.example'' ''PHISHING'' 1,
                RevokeOverride ''OVERRIDE-0'' ''bob'' ''done'']
             (record_safety_event ''suspicious_on_trusted'' (load_state 0 None))))
     = Inl (SystemFrozen (Some ''CRITICAL: SUSPICIOUS verdict on trusted domain''))"
proof -
  let ?s = "record_safety_event ''suspicious_on_trusted'' (load_state 0 None)"
  let ?cs = "[RecordCanaryResult 1 ''a.example'' ''PHISHING'' 1,
              RevokeOverride ''OVERRIDE-0'' ''bob'' ''done'']"
  have frozen: "is_frozen (safety_budget ?s)"
    by (simp add: record_safety_event_def fold_check_budget_frozen trigger_freeze_def)
  have nolift: "\<not> list_ex is_lift ?cs"
    by simp
  have why: "freeze_reason (safety_budget (run ?cs ?s))
               = Some ''CRITICAL: SUSPICIOUS verdict on trusted domain''"
    by code_simp
  show ?thesis
    using frozen nolift why
      frozen_rejects_every_override_until_lift [OF frozen nolift, of 2 2 "''OVERRIDE-2''" EMERGENCY
        ON_CALL "[''a.example'']" "''incident''" "''alice''" None None]
    by simp
qed

subsection \<open>Lifting a freeze\<close>

text \<open>
  Claim C6. \<open>lift_freeze\<close> leaves an engine that is not frozen as it is. On a frozen engine
  it clears the frozen flag and the freeze reason and starts a new window: afterwards the
  engine is not frozen, has no freeze reason, the three counters are 0 and the window starts
  at the time of the call. The overrides and the canary signals are not touched.
\<close>

theorem lift_freeze_resets_window:
  "(\<not> is_frozen (safety_budget s) \<longrightarrow> lift_freeze now lifted_by resolution ticket s = s) \<and>
   (is_frozen (safety_budget s) \<longrightarrow>
      \<not> is_frozen (safety_budget (lift_freeze now lifted_by resolution ticket s)) \<and>
      freeze_reason (safety_budget (lift_freeze now lifted_by resolution ticket s)) = None \<and>
      suspicious_on_trusted (safety_budget (lift_freeze now lifted_by resolution ticket s)) = 0 \<and>
      overrides_used (safety_budget (lift_freeze now lifted_by resolution ticket s)) = 0 \<and>
      canary_failures (safety_budget (lift_freeze now lifted_by resolution ticket s)) = 0 \<and>
      window_start (safety_budget (lift_freeze now lifted_by resolution ticket s)) = now \<and>
      overrides (lift_freeze now lifted_by resolution ticket s) = overrides s \<and>
      canary_signals (lift_freeze now lifted_by resolution ticket s) = canary_signals s)"
  by (simp add: lift_freeze_def reset_safety_budget_def new_budget_def)

theorem lift_freeze_resets_window_witness:
  "lift_freeze 9 ''alice'' ''root cause fixed'' ''T-2'' (load_state 0 None) = load_state 0 None \<and>
   is_frozen (safety_budget (record_safety_event ''suspicious_on_trusted'' (load_state 0 None))) \<and>
   safety_budget (lift_freeze 9 ''alice'' ''root cause fixed'' ''T-2''
      (record_safety_event ''suspicious_on_trusted'' (load_state 0 None)))
     = \<lparr>window_start = 9, suspicious_on_trusted = 0, overrides_used = 0, canary_failures = 0,
        is_frozen = False, freeze_reason = None\<rparr>"
proof -
  let ?s = "record_safety_event ''suspicious_on_trusted'' (load_state 0 None)"
  have a: "\<not> is_frozen (safety_budget (load_state 0 None))"
    by (simp add: load_state_def new_budget_def)
  have b: "is_frozen (safety_budget ?s)"
    by code_simp
  show ?thesis
    using a b
      lift_freeze_resets_window [of "load_state 0 None" 9 "''alice''" "''root cause fixed''" "''T-2''"]
      lift_freeze_resets_window [of ?s 9 "''alice''" "''root cause fixed''" "''T-2''"]
    by simp
qed

subsection \<open>The calibration adapter\<close>

text \<open>
  Claim C7. The adjustment depends on the status only: \<open>healthy\<close> gives the penalty 0.0 and
  no restriction, \<open>degraded\<close> the penalty 0.20 with the restriction, \<open>unknown\<close> the penalty
  0.10 with the restriction. So \<open>PHISHING\<close> becomes \<open>SUSPICIOUS\<close> under \<open>degraded\<close> and stays
  under \<open>healthy\<close>, \<open>SAFE\<close> stays under \<open>degraded\<close>, and a verdict other than \<open>PHISHING\<close> is
  returned unchanged under every status.
\<close>

theorem calibration_adapter_mapping:
  "confidence_penalty (get_calibration_policy_adjustment ''healthy'') = 0 \<and>
   \<not> restrict_phishing (get_calibration_policy_adjustment ''healthy'') \<and>
   \<not> require_warning (get_calibration_policy_adjustment ''healthy'') \<and>
   confidence_penalty (get_calibration_policy_adjustment ''degraded'') = 0.20 \<and>
   restrict_phishing (get_calibration_policy_adjustment ''degraded'') \<and>
   require_warning (get_calibration_policy_adjustment ''degraded'') \<and>
   confidence_penalty (get_calibration_policy_adjustment ''unknown'') = 0.10 \<and>
   restrict_phishing (get_calibration_policy_adjustment ''unknown'') \<and>
   require_warning (get_calibration_policy_adjustment ''unknown'') \<and>
   apply_calibration_restriction ''PHISHING'' ''degraded'' = ''SUSPICIOUS'' \<and>
   apply_calibration_restriction ''SAFE'' ''degraded'' = ''SAFE'' \<and>
   apply_calibration_restriction ''PHISHING'' ''healthy'' = ''PHISHING'' \<and>
   (\<forall>verdict status.
      verdict \<noteq> ''PHISHING'' \<longrightarrow> apply_calibration_restriction verdict status = verdict)"
  by (simp add: get_calibration_policy_adjustment_def apply_calibration_restriction_def)

theorem calibration_adapter_mapping_witness:
  "''SUSPICIOUS'' \<noteq> ''PHISHING'' \<and>
   apply_calibration_restriction ''SUSPICIOUS'' ''unknown'' = ''SUSPICIOUS'' \<and>
   apply_calibration_restriction ''SAFE'' ''healthy'' = ''SAFE''"
  using calibration_adapter_mapping by simp

text \<open>
  Claim C10. Every status other than the strings \<open>healthy\<close> and \<open>degraded\<close> (another
  spelling, another case, the empty string) gets the adjustment of \<open>unknown\<close>: penalty 0.10,
  restriction and warning. So \<open>PHISHING\<close> becomes \<open>SUSPICIOUS\<close> under every status that is
  not recognised.
\<close>

theorem unrecognised_status_fails_closed:
  assumes "calibration_status \<noteq> ''healthy''" and "calibration_status \<noteq> ''degraded''"
  shows "get_calibration_policy_adjustment calibration_status
           = \<lparr>confidence_penalty = 0.10, restrict_phishing = True, require_warning = True,
              ci_should_warn = True,
              warning_message = Some ''Calibration status unknown. Results may be unreliable.''\<rparr> \<and>
         apply_calibration_restriction ''PHISHING'' calibration_status = ''SUSPICIOUS''"
  using assms by (simp add: get_calibration_policy_adjustment_def apply_calibration_restriction_def)

theorem unrecognised_status_fails_closed_witness:
  "''HEALTHY'' \<noteq> ''healthy'' \<and> ''HEALTHY'' \<noteq> ''degraded'' \<and>
   restrict_phishing (get_calibration_policy_adjustment ''HEALTHY'') \<and>
   confidence_penalty (get_calibration_policy_adjustment ''HEALTHY'') = 0.10 \<and>
   apply_calibration_restriction ''PHISHING'' ''HEALTHY'' = ''SUSPICIOUS'' \<and>
   apply_calibration_restriction ''PHISHING'' '''' = ''SUSPICIOUS'' \<and>
   apply_calibration_restriction ''PHISHING'' ''helthy'' = ''SUSPICIOUS''"
  using unrecognised_status_fails_closed [of "''HEALTHY''"]
    unrecognised_status_fails_closed [of "''''"]
    unrecognised_status_fails_closed [of "''helthy''"]
  by simp

subsection \<open>The policy verifier\<close>

lemma errors_verify:
  "errors (verify_policy_consistency fs) = check_manifest fs @ check_snapshot fs"
  by (simp add: verify_policy_consistency_def Let_def)

lemma warnings_verify:
  "warnings (verify_policy_consistency fs) = check_calibration fs"
  by (simp add: verify_policy_consistency_def Let_def)

lemma should_fail_ci_verify:
  "should_fail_ci (verify_policy_consistency fs) = (check_manifest fs @ check_snapshot fs \<noteq> [])"
  by (simp add: verify_policy_consistency_def Let_def)

lemma consistent_verify:
  "consistent (verify_policy_consistency fs) = (check_manifest fs @ check_snapshot fs = [])"
  by (simp add: verify_policy_consistency_def Let_def)

lemma check_manifest_calibration:
  "check_manifest (fs\<lparr>calibration_file := c\<rparr>) = check_manifest fs"
  by (simp add: check_manifest_def)

lemma check_snapshot_calibration:
  "check_snapshot (fs\<lparr>calibration_file := c\<rparr>) = check_snapshot fs"
  by (simp add: check_snapshot_def split: option.splits)

lemma check_manifest_missing:
  "manifest_file fs = None \<Longrightarrow> check_manifest fs = [ManifestFileMissing]"
  by (simp add: check_manifest_def)

lemma check_calibration_missing:
  "calibration_file fs = None \<Longrightarrow> check_calibration fs = [CalibrationFileMissing]"
  by (simp add: check_calibration_def)

lemma checks_pass:
  "manifest_file fs = Some manifest \<Longrightarrow> truthy (manifest ''version'') \<Longrightarrow>
   truthy (manifest ''change_reason'') \<Longrightarrow> snapshot_file fs = Some snapshot \<Longrightarrow>
   py_eq (snapshot ''_manifest_version'') (manifest ''version'') \<Longrightarrow>
   check_manifest fs = [] \<and> check_snapshot fs = []"
  by (simp add: check_manifest_def check_snapshot_def)

text \<open>
  Claim C8. The report has \<open>should_fail_ci\<close> exactly when its list of errors is not empty.
  A missing manifest is an error and fails CI. Warnings do not: the calibration artifact
  changes neither the errors nor \<open>should_fail_ci\<close>, its absence is the warning
  \<open>CalibrationFileMissing\<close>, and when only that artifact is missing (the manifest has its two
  fields and the snapshot names the manifest's version) the report has no error, does not
  fail CI and holds that warning.
\<close>

theorem should_fail_ci_iff_errors:
  "(should_fail_ci (verify_policy_consistency fs) \<longleftrightarrow> errors (verify_policy_consistency fs) \<noteq> []) \<and>
   (manifest_file fs = None \<longrightarrow>
      should_fail_ci (verify_policy_consistency fs) \<and>
      ManifestFileMissing \<in> set (errors (verify_policy_consistency fs))) \<and>
   errors (verify_policy_consistency (fs\<lparr>calibration_file := c\<rparr>))
     = errors (verify_policy_consistency fs) \<and>
   should_fail_ci (verify_policy_consistency (fs\<lparr>calibration_file := c\<rparr>))
     = should_fail_ci (verify_policy_consistency fs) \<and>
   (calibration_file fs = None \<longrightarrow>
      warnings (verify_policy_consistency fs) = [CalibrationFileMissing]) \<and>
   (manifest_file fs = Some manifest \<and> truthy (manifest ''version'') \<and>
      truthy (manifest ''change_reason'') \<and> snapshot_file fs = Some snapshot \<and>
      py_eq (snapshot ''_manifest_version'') (manifest ''version'') \<and>
      calibration_file fs = None \<longrightarrow>
        \<not> should_fail_ci (verify_policy_consistency fs) \<and>
        errors (verify_policy_consistency fs) = [] \<and>
        warnings (verify_policy_consistency fs) = [CalibrationFileMissing])"
proof (intro conjI impI)
  show "should_fail_ci (verify_policy_consistency fs) \<longleftrightarrow> errors (verify_policy_consistency fs) \<noteq> []"
    by (simp only: should_fail_ci_verify errors_verify)
next
  assume "manifest_file fs = None"
  then show "should_fail_ci (verify_policy_consistency fs)"
    by (simp add: should_fail_ci_verify check_manifest_missing)
next
  assume "manifest_file fs = None"
  then show "ManifestFileMissing \<in> set (errors (verify_policy_consistency fs))"
    by (simp add: errors_verify check_manifest_missing)
next
  show "errors (verify_policy_consistency (fs\<lparr>calibration_file := c\<rparr>))
          = errors (verify_policy_consistency fs)"
    by (simp only: errors_verify check_manifest_calibration check_snapshot_calibration)
next
  show "should_fail_ci (verify_policy_consistency (fs\<lparr>calibration_file := c\<rparr>))
          = should_fail_ci (verify_policy_consistency fs)"
    by (simp only: should_fail_ci_verify check_manifest_calibration check_snapshot_calibration)
next
  assume "calibration_file fs = None"
  then show "warnings (verify_policy_consistency fs) = [CalibrationFileMissing]"
    by (simp add: warnings_verify check_calibration_missing)
next
  assume a: "manifest_file fs = Some manifest \<and> truthy (manifest ''version'') \<and>
      truthy (manifest ''change_reason'') \<and> snapshot_file fs = Some snapshot \<and>
      py_eq (snapshot ''_manifest_version'') (manifest ''version'') \<and>
      calibration_file fs = None"
  then have ok: "check_manifest fs = [] \<and> check_snapshot fs = []"
    using checks_pass by blast
  show "\<not> should_fail_ci (verify_policy_consistency fs)"
    using ok by (simp add: should_fail_ci_verify)
  show "errors (verify_policy_consistency fs) = []"
    using ok by (simp add: errors_verify)
  show "warnings (verify_policy_consistency fs) = [CalibrationFileMissing]"
    using a by (simp add: warnings_verify check_calibration_missing)
qed

theorem should_fail_ci_iff_errors_witness:
  "should_fail_ci (verify_policy_consistency
      \<lparr>manifest_file = None,
       snapshot_file = Some [''_manifest_version'' \<mapsto> JStr ''1.2.0''],
       calibration_file = Some [''calibration_status'' \<mapsto> JStr ''healthy'']\<rparr>) \<and>
   \<not> should_fail_ci (verify_policy_consistency
      \<lparr>manifest_file = Some [''version'' \<mapsto> JStr ''1.2.0'', ''change_reason'' \<mapsto> JStr ''audit''],
       snapshot_file = Some [''_manifest_version'' \<mapsto> JStr ''1.2.0''],
       calibration_file = None\<rparr>) \<and>
   warnings (verify_policy_consistency
      \<lparr>manifest_file = Some [''version'' \<mapsto> JStr ''1.2.0'', ''change_reason'' \<mapsto> JStr ''audit''],
       snapshot_file = Some [''_manifest_version'' \<mapsto> JStr ''1.2.0''],
       calibration_file = None\<rparr>) = [CalibrationFileMissing]"
proof -
  let ?m = "[''version'' \<mapsto> JStr ''1.2.0'', ''change_reason'' \<mapsto> JStr ''audit'']"
  let ?sn = "[''_manifest_version'' \<mapsto> JStr ''1.2.0'']"
  let ?a = "\<lparr>manifest_file = None, snapshot_file = Some ?sn,
             calibration_file = Some [''calibration_status'' \<mapsto> JStr ''healthy'']\<rparr>"
  let ?b = "\<lparr>manifest_file = Some ?m, snapshot_file = Some ?sn, calibration_file = None\<rparr>"
  have a: "manifest_file ?a = None"
    by simp
  have b: "manifest_file ?b = Some ?m \<and> truthy (?m ''version'') \<and>
           truthy (?m ''change_reason'') \<and> snapshot_file ?b = Some ?sn \<and>
           py_eq (?sn ''_manifest_version'') (?m ''version'') \<and> calibration_file ?b = None"
    by simp
  have "should_fail_ci (verify_policy_consistency ?a)"
    using a should_fail_ci_iff_errors [of ?a None ?m ?sn] by blast
  moreover have "\<not> should_fail_ci (verify_policy_consistency ?b) \<and>
                 warnings (verify_policy_consistency ?b) = [CalibrationFileMissing]"
    using b should_fail_ci_iff_errors [of ?b None ?m ?sn] by blast
  ultimately show ?thesis
    by blast
qed

subsection \<open>Authority validation\<close>

lemma validate_authority_ok:
  "validate_authority ty auth ticket = Inr () \<longleftrightarrow>
     authority_matrix ty auth \<and> (ty = PERMANENT \<longrightarrow> (\<exists>t. ticket = Some t \<and> t \<noteq> []))"
  by (cases ty; cases auth; cases ticket)
     (simp_all add: validate_authority_def authority_matrix_def no_ticket_def)

lemma validate_authority_error:
  "validate_authority ty auth ticket =
     (if ty = PERMANENT \<and> auth \<noteq> SECURITY_TEAM
      then Inl (PermanentNeedsSecurityTeam (authority_value auth))
      else if ty = PERMANENT \<and> (ticket = None \<or> ticket = Some [])
      then Inl PermanentNeedsTicket
      else if ty = EMERGENCY \<and> auth = CI_SYSTEM
      then Inl (EmergencyNeedsAuthority ''ci-system'')
      else if ty = TESTING \<and> auth \<noteq> CI_SYSTEM
      then Inl (TestingNeedsCI (authority_value auth))
      else Inr ())"
  by (cases ty; cases auth; cases ticket)
     (simp_all add: validate_authority_def no_ticket_def)

lemma request_override_invalid:
  "validate_authority ty auth ticket = Inl e \<Longrightarrow>
   \<exists>e'. request_override now created new_id ty auth doms why approver ticket duration s = (Inl e', s)"
  by (simp add: request_override_def)

lemma request_override_invalid_unfrozen:
  "\<not> is_frozen (safety_budget s) \<Longrightarrow> validate_authority ty auth ticket = Inl e \<Longrightarrow>
   request_override now created new_id ty auth doms why approver ticket duration s = (Inl e, s)"
  by (simp add: request_override_def)

lemma exceeded_get_overrides:
  "exceeded_get (is_budget_exceeded b) ''overrides_per_window'' \<longleftrightarrow> overrides_used b > 3"
  by (simp add: exceeded_get_def is_budget_exceeded_def limit_of_def SAFETY_BUDGET_LIMITS_def)

lemma exceeded_get_canary:
  "exceeded_get (is_budget_exceeded b) ''canary_failures'' \<longleftrightarrow> canary_failures b > 5"
  by (simp add: exceeded_get_def is_budget_exceeded_def limit_of_def SAFETY_BUDGET_LIMITS_def)

lemma request_override_granted_iff:
  "(\<exists>ov. fst (request_override now created new_id ty auth doms why approver ticket duration s) = Inr ov) \<longleftrightarrow>
     \<not> is_frozen (safety_budget s) \<and> validate_authority ty auth ticket = Inr () \<and>
     overrides_used (safety_budget s) \<le> 3"
  by (cases "validate_authority ty auth ticket")
     (auto simp add: request_override_def Let_def exceeded_get_overrides)

text \<open>
  Claim C5. \<open>validate_authority\<close> accepts exactly the pairs of the matrix, and a permanent
  override only with a review ticket that is not empty. A request is granted exactly when
  the engine is not frozen, the budget check passes, the pair is in the matrix and a
  permanent request has its ticket. A pair outside the matrix fails with a \<open>ValueError\<close>
  and leaves the engine as it was, and so does a permanent request without a ticket,
  whatever the authority; on an engine that is not frozen the error is the one of the
  violated rule.
\<close>

theorem authority_matrix_exact:
  "(validate_authority ty auth ticket = Inr () \<longleftrightarrow>
      authority_matrix ty auth \<and> (ty = PERMANENT \<longrightarrow> (\<exists>t. ticket = Some t \<and> t \<noteq> []))) \<and>
   ((\<exists>ov. fst (request_override now created new_id ty auth doms why approver ticket duration s) = Inr ov) \<longleftrightarrow>
      \<not> is_frozen (safety_budget s) \<and> overrides_used (safety_budget s) \<le> 3 \<and>
      authority_matrix ty auth \<and> (ty = PERMANENT \<longrightarrow> (\<exists>t. ticket = Some t \<and> t \<noteq> []))) \<and>
   (\<not> authority_matrix ty auth \<longrightarrow>
      (\<exists>e. request_override now created new_id ty auth doms why approver ticket duration s = (Inl e, s))) \<and>
   (ty = PERMANENT \<and> (ticket = None \<or> ticket = Some []) \<longrightarrow>
      (\<exists>e. request_override now created new_id ty auth doms why approver ticket duration s = (Inl e, s))) \<and>
   (\<not> is_frozen (safety_budget s) \<and> ty = PERMANENT \<and> auth \<noteq> SECURITY_TEAM \<longrightarrow>
      request_override now created new_id ty auth doms why approver ticket duration s
        = (Inl (PermanentNeedsSecurityTeam (authority_value auth)), s)) \<and>
   (\<not> is_frozen (safety_budget s) \<and> ty = PERMANENT \<and> auth = SECURITY_TEAM \<and>
    (ticket = None \<or> ticket = Some []) \<longrightarrow>
      request_override now created new_id ty auth doms why approver ticket duration s
        = (Inl PermanentNeedsTicket, s)) \<and>
   (\<not> is_frozen (safety_budget s) \<and> ty = EMERGENCY \<and> auth = CI_SYSTEM \<longrightarrow>
      request_override now created new_id ty auth doms why approver ticket duration s
        = (Inl (EmergencyNeedsAuthority (authority_value auth)), s)) \<and>
   (\<not> is_frozen (safety_budget s) \<and> ty = TESTING \<and> auth \<noteq> CI_SYSTEM \<longrightarrow>
      request_override now created new_id ty auth doms why approver ticket duration s
        = (Inl (TestingNeedsCI (authority_value auth)), s))"
proof (intro conjI impI)
  show "validate_authority ty auth ticket = Inr () \<longleftrightarrow>
      authority_matrix ty auth \<and> (ty = PERMANENT \<longrightarrow> (\<exists>t. ticket = Some t \<and> t \<noteq> []))"
    by (rule validate_authority_ok)
next
  show "(\<exists>ov. fst (request_override now created new_id ty auth doms why approver ticket duration s) = Inr ov) \<longleftrightarrow>
      \<not> is_frozen (safety_budget s) \<and> overrides_used (safety_budget s) \<le> 3 \<and>
      authority_matrix ty auth \<and> (ty = PERMANENT \<longrightarrow> (\<exists>t. ticket = Some t \<and> t \<noteq> []))"
    unfolding request_override_granted_iff validate_authority_ok by blast
next
  assume "\<not> authority_matrix ty auth"
  then have "validate_authority ty auth ticket \<noteq> Inr ()"
    by (simp add: validate_authority_ok)
  then obtain e where "validate_authority ty auth ticket = Inl e"
    by (cases "validate_authority ty auth ticket") auto
  then show "\<exists>e. request_override now created new_id ty auth doms why approver ticket duration s = (Inl e, s)"
    by (rule request_override_invalid)
next
  assume "ty = PERMANENT \<and> (ticket = None \<or> ticket = Some [])"
  then have "validate_authority ty auth ticket \<noteq> Inr ()"
    by (auto simp add: validate_authority_ok)
  then obtain e where "validate_authority ty auth ticket = Inl e"
    by (cases "validate_authority ty auth ticket") auto
  then show "\<exists>e. request_override now created new_id ty auth doms why approver ticket duration s = (Inl e, s)"
    by (rule request_override_invalid)
next
  assume "\<not> is_frozen (safety_budget s) \<and> ty = PERMANENT \<and> auth \<noteq> SECURITY_TEAM"
  then show "request_override now created new_id ty auth doms why approver ticket duration s
        = (Inl (PermanentNeedsSecurityTeam (authority_value auth)), s)"
    by (simp add: request_override_invalid_unfrozen validate_authority_error)
next
  assume "\<not> is_frozen (safety_budget s) \<and> ty = PERMANENT \<and> auth = SECURITY_TEAM \<and>
    (ticket = None \<or> ticket = Some [])"
  then show "request_override now created new_id ty auth doms why approver ticket duration s
        = (Inl PermanentNeedsTicket, s)"
    by (auto simp add: request_override_invalid_unfrozen validate_authority_error)
next
  assume "\<not> is_frozen (safety_budget s) \<and> ty = EMERGENCY \<and> auth = CI_SYSTEM"
  then show "request_override now created new_id ty auth doms why approver ticket duration s
        = (Inl (EmergencyNeedsAuthority (authority_value auth)), s)"
    by (simp add: request_override_invalid_unfrozen validate_authority_error)
next
  assume "\<not> is_frozen (safety_budget s) \<and> ty = TESTING \<and> auth \<noteq> CI_SYSTEM"
  then show "request_override now created new_id ty auth doms why approver ticket duration s
        = (Inl (TestingNeedsCI (authority_value auth)), s)"
    by (simp add: request_override_invalid_unfrozen validate_authority_error)
qed


theorem authority_matrix_exact_witness:
  "\<not> authority_matrix PERMANENT ON_CALL \<and>
   \<not> is_frozen (safety_budget (load_state 0 None)) \<and>
   request_override 1 1 ''OVERRIDE-1'' PERMANENT ON_CALL [''a.example''] ''incident'' ''alice''
       (Some ''T-1'') None (load_state 0 None)
     = (Inl (PermanentNeedsSecurityTeam ''on-call''), load_state 0 None) \<and>
   request_override 1 1 ''OVERRIDE-1'' PERMANENT SECURITY_TEAM [''a.example''] ''incident'' ''alice''
       (Some []) None (load_state 0 None)
     = (Inl PermanentNeedsTicket, load_state 0 None) \<and>
   (\<exists>ov. fst (request_override 1 1 ''OVERRIDE-1'' EMERGENCY ON_CALL [''a.example''] ''incident''
                 ''alice'' None None (load_state 0 None)) = Inr ov)"
proof -
  let ?s = "load_state 0 None"
  have m: "\<not> authority_matrix PERMANENT ON_CALL" "authority_matrix EMERGENCY ON_CALL"
    by (simp_all add: authority_matrix_def)
  have f: "\<not> is_frozen (safety_budget ?s)" "overrides_used (safety_budget ?s) \<le> 3"
    by (simp_all add: load_state_def new_budget_def)
  have a: "request_override 1 1 ''OVERRIDE-1'' PERMANENT ON_CALL [''a.example''] ''incident'' ''alice''
       (Some ''T-1'') None ?s = (Inl (PermanentNeedsSecurityTeam ''on-call''), ?s)"
    using f authority_matrix_exact [of PERMANENT ON_CALL "Some ''T-1''" 1 1 "''OVERRIDE-1''"
        "[''a.example'']" "''incident''" "''alice''" None ?s]
    by simp
  have b: "request_override 1 1 ''OVERRIDE-1'' PERMANENT SECURITY_TEAM [''a.example''] ''incident''
       ''alice'' (Some []) None ?s = (Inl PermanentNeedsTicket, ?s)"
    using f authority_matrix_exact [of PERMANENT SECURITY_TEAM "Some []" 1 1 "''OVERRIDE-1''"
        "[''a.example'']" "''incident''" "''alice''" None ?s]
    by simp
  have c: "\<exists>ov. fst (request_override 1 1 ''OVERRIDE-1'' EMERGENCY ON_CALL [''a.example''] ''incident''
                 ''alice'' None None ?s) = Inr ov"
    using f m authority_matrix_exact [of EMERGENCY ON_CALL None 1 1 "''OVERRIDE-1''"
        "[''a.example'']" "''incident''" "''alice''" None ?s]
    by simp
  show ?thesis
    using m f a b c by blast
qed

subsection \<open>Expiration of an override\<close>

lemma calculate_expiration_bounded:
  "OVERRIDE_MAX_DURATION ty = Some mx \<Longrightarrow>
   calculate_expiration now ty (Some d) = Some (now + min d mx) \<and>
   calculate_expiration now ty None = Some (now + mx)"
  by (simp add: calculate_expiration_def min_def)

lemma calculate_expiration_capped:
  "OVERRIDE_MAX_DURATION ty = Some mx \<Longrightarrow> d > mx \<Longrightarrow>
   calculate_expiration now ty (Some d) = calculate_expiration now ty (Some mx)"
  by (simp add: calculate_expiration_def)

lemma request_override_capped:
  "OVERRIDE_MAX_DURATION ty = Some mx \<Longrightarrow> d > mx \<Longrightarrow>
   request_override now created new_id ty auth doms why approver ticket (Some d) s
     = request_override now created new_id ty auth doms why approver ticket (Some mx) s"
  by (simp add: request_override_def calculate_expiration_capped split: sum.splits)

lemma request_override_expiry:
  "request_override now created new_id ty auth doms why approver ticket duration s = (Inr ov, s') \<Longrightarrow>
   created_at ov = created \<and> expires_at ov = calculate_expiration now ty duration"
  by (cases "validate_authority ty auth ticket")
     (auto simp add: request_override_def Let_def split: if_splits)

text \<open>
  Claim C9, as stated, has the expiration equal to the creation time plus the smaller of the
  requested duration and the maximum. The source computes the expiration from its own
  reading of the clock, taken before the one it stores as \<^verbatim>\<open>created_at\<close>. With the
  readings 1000 and 1007 an emergency override requested for 30 hours is granted with
  \<open>created_at = 1007\<close> and an expiration of 1000 plus 24 hours, which is not the creation
  time plus 24 hours.
\<close>

theorem expiration_not_from_creation_time:
  "fst (request_override 1000 1007 ''OVERRIDE-1'' EMERGENCY ON_CALL [''a.example''] ''incident''
          ''alice'' None (Some (hours 30)) (load_state 0 None))
     = Inr \<lparr>override_id = ''OVERRIDE-1'', override_type = ''emergency'', authority = ''on-call'',
            created_at = 1007, expires_at = Some 86400001000, affected_domains = [''a.example''],
            reason = ''incident'', approved_by = ''alice'', review_ticket = None,
            is_active = True\<rparr> \<and>
   Some (86400001000 :: int) \<noteq> Some (1007 + min (hours 30) (hours 24))"
  by code_simp

text \<open>
  Claim C9, amended. The maximum is 24 hours for an emergency override and 1 hour for a
  testing override. For a kind with a maximum, the expiration is the clock as
  \<open>calculate_expiration\<close> reads it plus the smaller of the requested duration and the
  maximum, and plus the maximum when no duration is given. A duration over the maximum is
  capped: the request then does what the request with the maximum does, so it is not
  rejected for its duration. A permanent override has no expiration. An override that is
  granted expires as \<open>calculate_expiration\<close> says at its reading of the clock; its creation
  time is the later reading.
\<close>

theorem duration_capped_to_maximum:
  "OVERRIDE_MAX_DURATION EMERGENCY = Some (hours 24) \<and>
   OVERRIDE_MAX_DURATION TESTING = Some (hours 1) \<and>
   (OVERRIDE_MAX_DURATION ty = Some mx \<longrightarrow>
      calculate_expiration now ty (Some d) = Some (now + min d mx) \<and>
      calculate_expiration now ty None = Some (now + mx)) \<and>
   (OVERRIDE_MAX_DURATION ty = Some mx \<and> d > mx \<longrightarrow>
      calculate_expiration now ty (Some d) = Some (now + mx) \<and>
      request_override now created new_id ty auth doms why approver ticket (Some d) s
        = request_override now created new_id ty auth doms why approver ticket (Some mx) s) \<and>
   calculate_expiration now PERMANENT duration = None \<and>
   (request_override now created new_id ty auth doms why approver ticket duration s = (Inr ov, s')
      \<longrightarrow> created_at ov = created \<and> expires_at ov = calculate_expiration now ty duration)"
proof (intro conjI impI)
  show "OVERRIDE_MAX_DURATION EMERGENCY = Some (hours 24)"
    by simp
  show "OVERRIDE_MAX_DURATION TESTING = Some (hours 1)"
    by simp
  show "calculate_expiration now PERMANENT duration = None"
    by (simp add: calculate_expiration_def)
next
  assume "OVERRIDE_MAX_DURATION ty = Some mx"
  then show "calculate_expiration now ty (Some d) = Some (now + min d mx)"
    and "calculate_expiration now ty None = Some (now + mx)"
    by (simp_all add: calculate_expiration_bounded)
next
  assume a: "OVERRIDE_MAX_DURATION ty = Some mx \<and> d > mx"
  then show "calculate_expiration now ty (Some d) = Some (now + mx)"
    by (simp add: calculate_expiration_def)
  from a show "request_override now created new_id ty auth doms why approver ticket (Some d) s
        = request_override now created new_id ty auth doms why approver ticket (Some mx) s"
    by (simp add: request_override_capped)
next
  assume "request_override now created new_id ty auth doms why approver ticket duration s
            = (Inr ov, s')"
  then show "created_at ov = created"
    and "expires_at ov = calculate_expiration now ty duration"
    by (simp_all add: request_override_expiry)
qed

theorem duration_capped_to_maximum_witness:
  "OVERRIDE_MAX_DURATION EMERGENCY = Some (hours 24) \<and> hours 30 > hours 24 \<and>
   calculate_expiration 1000 EMERGENCY (Some (hours 30)) = Some (1000 + hours 24) \<and>
   calculate_expiration 1000 TESTING (Some (hours 2)) = Some (1000 + hours 1) \<and>
   calculate_expiration 1000 TESTING None = Some (1000 + hours 1) \<and>
   fst (request_override 1000 1007 ''OVERRIDE-1'' EMERGENCY ON_CALL [''a.example''] ''incident''
          ''alice'' None (Some (hours 30)) (load_state 0 None))
     = Inr \<lparr>override_id = ''OVERRIDE-1'', override_type = ''emergency'', authority = ''on-call'',
            created_at = 1007, expires_at = Some 86400001000, affected_domains = [''a.example''],
            reason = ''incident'', approved_by = ''alice'', review_ticket = None,
            is_active = True\<rparr>"
proof -
  have e: "OVERRIDE_MAX_DURATION EMERGENCY = Some (hours 24) \<and> hours 30 > hours 24"
    by (simp add: hours_def)
  have t: "OVERRIDE_MAX_DURATION TESTING = Some (hours 1) \<and> hours 2 > hours 1"
    by (simp add: hours_def)
  have a: "calculate_expiration 1000 EMERGENCY (Some (hours 30)) = Some (1000 + hours 24)"
    using e duration_capped_to_maximum [of EMERGENCY "hours 24" 1000 "hours 30"] by blast
  have b: "calculate_expiration 1000 TESTING (Some (hours 2)) = Some (1000 + hours 1) \<and>
           calculate_expiration 1000 TESTING None = Some (1000 + hours 1)"
    using t duration_capped_to_maximum [of TESTING "hours 1" 1000 "hours 2"] by blast
  have c: "request_override 1000 1007 ''OVERRIDE-1'' EMERGENCY ON_CALL [''a.example''] ''incident''
             ''alice'' None (Some (hours 30)) (load_state 0 None)
           = request_override 1000 1007 ''OVERRIDE-1'' EMERGENCY ON_CALL [''a.example'']
               ''incident'' ''alice'' None (Some (hours 24)) (load_state 0 None)"
    using e duration_capped_to_maximum [of EMERGENCY "hours 24" 1000 "hours 30"] by blast
  have d: "fst (request_override 1000 1007 ''OVERRIDE-1'' EMERGENCY ON_CALL [''a.example'']
                  ''incident'' ''alice'' None (Some (hours 24)) (load_state 0 None))
     = Inr \<lparr>override_id = ''OVERRIDE-1'', override_type = ''emergency'', authority = ''on-call'',
            created_at = 1007, expires_at = Some 86400001000, affected_domains = [''a.example''],
            reason = ''incident'', approved_by = ''alice'', review_ticket = None,
            is_active = True\<rparr>"
    by code_simp
  show ?thesis
    using e a b c d by simp
qed

subsection \<open>The budget of overrides\<close>

text \<open>
  What \<open>request_override\<close> does with the counter of overrides: it tests
  \<open>overrides_used > 3\<close> before it counts the override it is about to grant.
\<close>

lemma request_override_within_budget:
  "\<not> is_frozen (safety_budget s) \<Longrightarrow> validate_authority ty auth ticket = Inr () \<Longrightarrow>
   overrides_used (safety_budget s) \<le> 3 \<Longrightarrow>
   \<exists>ov. fst (request_override now created new_id ty auth doms why approver ticket duration s) = Inr ov \<and>
        \<not> is_frozen (safety_budget
             (snd (request_override now created new_id ty auth doms why approver ticket duration s))) \<and>
        overrides_used (safety_budget
             (snd (request_override now created new_id ty auth doms why approver ticket duration s)))
          = overrides_used (safety_budget s) + 1"
  by (simp add: request_override_def Let_def exceeded_get_overrides)

lemma request_override_over_budget:
  "\<not> is_frozen (safety_budget s) \<Longrightarrow> validate_authority ty auth ticket = Inr () \<Longrightarrow>
   overrides_used (safety_budget s) > 3 \<Longrightarrow>
   request_override now created new_id ty auth doms why approver ticket duration s
     = (Inl OverrideBudgetExceeded, trigger_freeze ''Override budget exceeded'' s)"
  by (simp add: request_override_def Let_def exceeded_get_overrides)

text \<open>
  Claim C3 says that with 3 overrides issued in the window a fourth valid request is
  rejected with the budget error and freezes the engine. The source does otherwise: after
  three granted requests on a new engine the engine is not frozen and the counter is 3; the
  fourth request is granted, the engine stays unfrozen and the counter becomes 4; only the
  fifth request raises the budget error and freezes the engine.
\<close>

theorem fourth_override_is_granted:
  "\<not> is_frozen (safety_budget (run three_overrides (load_state 0 None))) \<and>
   overrides_used (safety_budget (run three_overrides (load_state 0 None))) = 3 \<and>
   length (overrides (run three_overrides (load_state 0 None))) = 3 \<and>
   fst (request_override 4 4 ''OVERRIDE-4'' EMERGENCY ON_CALL [''d.example''] ''incident'' ''alice''
          None None (run three_overrides (load_state 0 None)))
     = Inr \<lparr>override_id = ''OVERRIDE-4'', override_type = ''emergency'', authority = ''on-call'',
            created_at = 4, expires_at = Some 86400000004, affected_domains = [''d.example''],
            reason = ''incident'', approved_by = ''alice'', review_ticket = None,
            is_active = True\<rparr> \<and>
   \<not> is_frozen (safety_budget (snd
       (request_override 4 4 ''OVERRIDE-4'' EMERGENCY ON_CALL [''d.example''] ''incident'' ''alice''
          None None (run three_overrides (load_state 0 None))))) \<and>
   overrides_used (safety_budget (snd
       (request_override 4 4 ''OVERRIDE-4'' EMERGENCY ON_CALL [''d.example''] ''incident'' ''alice''
          None None (run three_overrides (load_state 0 None))))) = 4 \<and>
   length (overrides (snd
       (request_override 4 4 ''OVERRIDE-4'' EMERGENCY ON_CALL [''d.example''] ''incident'' ''alice''
          None None (run three_overrides (load_state 0 None))))) = 4 \<and>
   fst (request_override 5 5 ''OVERRIDE-5'' EMERGENCY ON_CALL [''e.example''] ''incident'' ''alice''
          None None (snd
       (request_override 4 4 ''OVERRIDE-4'' EMERGENCY ON_CALL [''d.example''] ''incident'' ''alice''
          None None (run three_overrides (load_state 0 None)))))
     = Inl OverrideBudgetExceeded \<and>
   is_frozen (safety_budget (snd
       (request_override 5 5 ''OVERRIDE-5'' EMERGENCY ON_CALL [''e.example''] ''incident'' ''alice''
          None None (snd
       (request_override 4 4 ''OVERRIDE-4'' EMERGENCY ON_CALL [''d.example''] ''incident'' ''alice''
          None None (run three_overrides (load_state 0 None)))))))"
  by code_simp

subsection \<open>Canary promotion\<close>

















lemma eligible_iff:
  "eligible (check_promotion_eligibility d s) \<longleftrightarrow>
     (\<exists>sg. canary_signals s d = Some sg \<and> test_runs sg \<ge> 5 \<and> sample_size sg \<ge> 100 \<and>
           consecutive_passes sg \<ge> 5 \<and> pass_rate sg \<ge> 1)"
  by (cases "canary_signals s d")
     (auto simp add: check_promotion_eligibility_def has_sufficient_signal_def
        CANARY_MIN_PASSES_def CANARY_MIN_SAMPLE_SIZE_def)



text \<open>
  The source tests \<open>pass_rate() >= 1.0\<close>. On an engine that was not built by the
  engine's own methods (a state file edited by hand), a signal with more passes than runs
  has a pass rate above 1 and is eligible.
\<close>

lemma eligible_with_more_passes_than_runs:
  "eligible (check_promotion_eligibility ''example.com''
      \<lparr>overrides = [],
       canary_signals = [''example.com'' \<mapsto>
         \<lparr>domain = ''example.com'', test_runs = 5, passes = 6, failures = 0, sample_size = 100,
          last_run = None, last_verdict = None, consecutive_passes = 5\<rparr>],
       safety_budget = new_budget 0\<rparr>) \<and>
   pass_rate \<lparr>domain = ''example.com'', test_runs = 5, passes = 6, failures = 0, sample_size = 100,
          last_run = None, last_verdict = None, consecutive_passes = 5\<rparr> = 6 / 5"
  by (simp add: eligible_iff pass_rate_def)




end
